theory Spec2Isabelle
  imports Main
begin

section \<open>Definition: the instantiated flag (Definition.h)\<close>

text \<open>
  \<^verbatim>\<open>Definition::ParameterDecl\<close> keeps two unions of syntax pointers, whose targets are
  declared in other headers, and six plain members. The model keeps the plain members; the
  discriminants \<open>isTypeParam\<close> and \<open>hasSyntax\<close> say which union member is live.
\<close>

record ParameterDecl =
  pname :: string
  isTypeParam :: bool
  isLocalParam :: bool
  isPortParam :: bool
  hasSyntax :: bool

text \<open>
  \<^verbatim>\<open>class Definition\<close>. The members whose types come from headers that are not part of
  the sources at hand (source location, syntax node, net type, scope, time scale,
  attributes, syntax tree) are gathered in one field of an arbitrary type \<open>'x\<close>: no member
  function modelled here reads them. The private member
  \<^verbatim>\<open>mutable bool instantiated = false;\<close> is the last field.
\<close>

record 'x Definition =
  dname :: string
  parameters :: "ParameterDecl list"
  modports :: "string set"
  hasNonAnsiPorts :: bool
  others :: 'x
  instantiated :: bool

text \<open>
  A freshly constructed object: every constructor starts from the in-class initialiser
  \<^verbatim>\<open>instantiated = false\<close>.
\<close>

definition newDefinition ::
  "string \<Rightarrow> ParameterDecl list \<Rightarrow> string set \<Rightarrow> bool \<Rightarrow> 'x \<Rightarrow> 'x Definition" where
  "newDefinition n ps ms na x =
     \<lparr>dname = n, parameters = ps, modports = ms, hasNonAnsiPorts = na, others = x,
      instantiated = False\<rparr>"

text \<open>\<^verbatim>\<open>bool isInstantiated() const { return instantiated; }\<close>\<close>

definition isInstantiated :: "'x Definition \<Rightarrow> bool" where
  "isInstantiated d = instantiated d"

text \<open>\<^verbatim>\<open>void noteInstantiated() const { instantiated = true; }\<close>\<close>

definition noteInstantiated :: "'x Definition \<Rightarrow> 'x Definition" where
  "noteInstantiated d = d\<lparr>instantiated := True\<rparr>"

text \<open>
  The member functions of the class, as calls on one object. All five are \<^verbatim>\<open>const\<close>;
  \<open>instantiated\<close> is the only \<^verbatim>\<open>mutable\<close> member, it is private, and of the two
  functions whose bodies the header gives only \<open>noteInstantiated\<close> writes it. The three
  functions declared without a body (\<open>getKindString\<close>, \<open>getArticleKindString\<close>,
  \<open>getHierarchicalPath\<close>) are taken to leave the object as it is, as their
  \<^verbatim>\<open>const\<close> qualifier and their documentation (they return or append a string) say.
\<close>

datatype DefinitionCall =
  GetKindString
  | GetArticleKindString
  | IsInstantiated
  | NoteInstantiated
  | GetHierarchicalPath

fun call :: "DefinitionCall \<Rightarrow> 'x Definition \<Rightarrow> 'x Definition" where
  "call NoteInstantiated d = noteInstantiated d"
| "call GetKindString d = d"
| "call GetArticleKindString d = d"
| "call IsInstantiated d = d"
| "call GetHierarchicalPath d = d"

text \<open>A sequence of calls on the object, first call first.\<close>

fun calls :: "DefinitionCall list \<Rightarrow> 'x Definition \<Rightarrow> 'x Definition" where
  "calls [] d = d"
| "calls (c # cs) d = calls cs (call c d)"

lemma call_keeps_flag: "instantiated d \<Longrightarrow> instantiated (call c d)"
  by (cases c) (simp_all add: noteInstantiated_def)

lemma calls_keep_flag: "instantiated d \<Longrightarrow> instantiated (calls cs d)"
proof (induction cs arbitrary: d)
  case Nil
  then show ?case by simp
next
  case (Cons c cs)
  from Cons.prems have "instantiated (call c d)" by (rule call_keeps_flag)
  then show ?case using Cons.IH by simp
qed

lemma calls_append: "calls (cs @ cs') d = calls cs' (calls cs d)"
  by (induction cs arbitrary: d) simp_all

lemma call_flag: "instantiated (call c d) = (instantiated d \<or> c = NoteInstantiated)"
  by (cases c) (simp_all add: noteInstantiated_def)

lemma calls_flag:
  "instantiated (calls cs d) = (instantiated d \<or> NoteInstantiated \<in> set cs)"
  by (induction cs arbitrary: d) (auto simp: call_flag)

text \<open>
  C8. The \<open>instantiated\<close> flag is monotonic. A new Definition is not instantiated;
  \<open>noteInstantiated\<close> makes \<open>isInstantiated\<close> true; after any sequence of calls the
  flag is true exactly when it was true before or the sequence holds a
  \<open>noteInstantiated\<close>, so no call resets it; and once \<open>isInstantiated\<close> has answered
  true (after the calls \<open>cs\<close>), it answers true after any further calls \<open>cs'\<close>.
\<close>

theorem instantiated_monotonic:
  "\<not> isInstantiated (newDefinition n ps ms na x)
   \<and> isInstantiated (noteInstantiated d)
   \<and> isInstantiated (calls cs d) = (isInstantiated d \<or> NoteInstantiated \<in> set cs)
   \<and> (isInstantiated (calls cs d) \<longrightarrow> isInstantiated (calls (cs @ cs') d))"
proof -
  have a: "\<not> isInstantiated (newDefinition n ps ms na x)"
    by (simp add: isInstantiated_def newDefinition_def)
  have b: "isInstantiated (noteInstantiated d)"
    by (simp add: isInstantiated_def noteInstantiated_def)
  have c: "isInstantiated (calls cs d) = (isInstantiated d \<or> NoteInstantiated \<in> set cs)"
    by (simp add: isInstantiated_def calls_flag)
  have e: "isInstantiated (calls cs d) \<longrightarrow> isInstantiated (calls (cs @ cs') d)"
    by (simp add: isInstantiated_def calls_append calls_keep_flag)
  from a b c e show ?thesis by blast
qed

theorem instantiated_monotonic_witness:
  "isInstantiated (calls [GetKindString, NoteInstantiated]
      (newDefinition ''m'' [] {} False ()))
   \<and> isInstantiated (calls ([GetKindString, NoteInstantiated] @ [GetHierarchicalPath, IsInstantiated])
      (newDefinition ''m'' [] {} False ()))
   \<and> \<not> isInstantiated (newDefinition ''m'' [] {} False ())"
  using instantiated_monotonic [of "''m''" "[]" "{}" False "()"
      "newDefinition ''m'' [] {} False ()" "[GetKindString, NoteInstantiated]"
      "[GetHierarchicalPath, IsInstantiated]"]
  by (simp add: isInstantiated_def newDefinition_def noteInstantiated_def)


section \<open>ScriptSession::eval (ScriptSession.cpp)\<close>

text \<open>
  \<^verbatim>\<open>enum class SyntaxKind : uint16_t\<close> is declared without its enumerators. The nine
  enumerators that \<open>eval\<close> names are constructors; every other enumerator is
  \<open>OtherKind\<close> with its value.
\<close>

datatype SyntaxKind =
  ParameterDeclarationStatement
  | FunctionDeclaration
  | TaskDeclaration
  | InterfaceDeclaration
  | ModuleDeclaration
  | HierarchyInstantiation
  | TypedefDeclaration
  | DataDeclaration
  | CompilationUnit
  | OtherKind nat

text \<open>
  A \<open>ConstantValue\<close> is null or holds a value; \<^verbatim>\<open>return nullptr;\<close> builds the null
  one. The values themselves are of an arbitrary type \<open>'v\<close>.
\<close>

datatype 'v ConstantValue = Null | Val 'v

text \<open>
  The session: the syntax trees kept so far (by their root nodes, of type \<open>'n\<close>), the
  members added to the script scope, and the locals of the evaluation context.
\<close>

record ('n, 'm, 'y, 'v) ScriptSession =
  syntaxTrees :: "'n list"
  scopeMembers :: "'m list"
  locals :: "('y \<times> 'v ConstantValue) list"

text \<open>
  What \<open>eval\<close> calls and the sources do not define: the parser
  (\<open>fromText\<close>, giving the root node), the node's kind, the two kind tables
  \<open>ExpressionSyntax::isKind\<close> and \<open>StatementSyntax::isKind\<close>, the members of a
  compilation unit, \<open>Scope::addMembers\<close>, \<open>Scope::addMember\<close> of a symbol,
  \<open>VariableSymbol::fromSyntax\<close>, a symbol's initialiser and its evaluation, and the
  binding and evaluation of an expression or a statement (which may change the session).
  They are parameters of the model.
\<close>

record ('n, 'm, 'y, 'e, 'v) Collaborators =
  fromText :: "string \<Rightarrow> 'n"
  kindOf :: "'n \<Rightarrow> SyntaxKind"
  isExpressionKind :: "SyntaxKind \<Rightarrow> bool"
  isStatementKind :: "SyntaxKind \<Rightarrow> bool"
  unitMembers :: "'n \<Rightarrow> 'n list"
  membersOf :: "'n \<Rightarrow> 'm list"
  symbolsOf :: "('n, 'm, 'y, 'v) ScriptSession \<Rightarrow> 'n \<Rightarrow> 'y list"
  memberOf :: "'y \<Rightarrow> 'm"
  getInitializer :: "'y \<Rightarrow> 'e option"
  evalInitializer ::
    "('n, 'm, 'y, 'v) ScriptSession \<Rightarrow> 'e \<Rightarrow> 'v ConstantValue \<times> ('n, 'm, 'y, 'v) ScriptSession"
  bindAndEval ::
    "('n, 'm, 'y, 'v) ScriptSession \<Rightarrow> 'n \<Rightarrow> 'v ConstantValue \<times> ('n, 'm, 'y, 'v) ScriptSession"
  runStatement ::
    "('n, 'm, 'y, 'v) ScriptSession \<Rightarrow> 'n \<Rightarrow> ('n, 'm, 'y, 'v) ScriptSession"

datatype error = Unreachable

text \<open>\<^verbatim>\<open>scope.addMembers(node)\<close>\<close>

definition addMembers ::
  "('n, 'm, 'y, 'e, 'v) Collaborators \<Rightarrow> ('n, 'm, 'y, 'v) ScriptSession \<Rightarrow> 'n
   \<Rightarrow> ('n, 'm, 'y, 'v) ScriptSession" where
  "addMembers X s node = s\<lparr>scopeMembers := scopeMembers s @ membersOf X node\<rparr>"

text \<open>
  One turn of the loop over the declared symbols: add the symbol to the scope, evaluate
  its initialiser when it has one (the initial value is null otherwise), and create the
  local.
\<close>

definition declareSymbol ::
  "('n, 'm, 'y, 'e, 'v) Collaborators \<Rightarrow> ('n, 'm, 'y, 'v) ScriptSession \<Rightarrow> 'y
   \<Rightarrow> ('n, 'm, 'y, 'v) ScriptSession" where
  "declareSymbol X s y =
     (let s1 = s\<lparr>scopeMembers := scopeMembers s @ [memberOf X y]\<rparr>;
          (initial, s2) = (case getInitializer X y of
                             None \<Rightarrow> (Null, s1)
                           | Some e \<Rightarrow> evalInitializer X s1 e)
      in s2\<lparr>locals := locals s2 @ [(y, initial)]\<rparr>)"

text \<open>\<^verbatim>\<open>evalExpression\<close> and \<^verbatim>\<open>evalStatement\<close>\<close>

definition evalExpression ::
  "('n, 'm, 'y, 'e, 'v) Collaborators \<Rightarrow> ('n, 'm, 'y, 'v) ScriptSession \<Rightarrow> 'n
   \<Rightarrow> 'v ConstantValue \<times> ('n, 'm, 'y, 'v) ScriptSession" where
  "evalExpression X s node = bindAndEval X s node"

definition evalStatement ::
  "('n, 'm, 'y, 'e, 'v) Collaborators \<Rightarrow> ('n, 'm, 'y, 'v) ScriptSession \<Rightarrow> 'n
   \<Rightarrow> ('n, 'm, 'y, 'v) ScriptSession" where
  "evalStatement X s node = runStatement X s node"

text \<open>
  \<^verbatim>\<open>ConstantValue ScriptSession::eval(string_view text)\<close>: the switch on the root's
  kind, in the source's order. The result is the returned value with the session after
  the call; \<^verbatim>\<open>ASSUME_UNREACHABLE\<close> is the error.
\<close>

definition eval ::
  "('n, 'm, 'y, 'e, 'v) Collaborators \<Rightarrow> ('n, 'm, 'y, 'v) ScriptSession \<Rightarrow> string
   \<Rightarrow> error + ('v ConstantValue \<times> ('n, 'm, 'y, 'v) ScriptSession)" where
  "eval X s0 inp =
     (let node = fromText X inp;
          s = s0\<lparr>syntaxTrees := syntaxTrees s0 @ [node]\<rparr>
      in case kindOf X node of
           ParameterDeclarationStatement \<Rightarrow> Inr (Null, addMembers X s node)
         | FunctionDeclaration \<Rightarrow> Inr (Null, addMembers X s node)
         | TaskDeclaration \<Rightarrow> Inr (Null, addMembers X s node)
         | InterfaceDeclaration \<Rightarrow> Inr (Null, addMembers X s node)
         | ModuleDeclaration \<Rightarrow> Inr (Null, addMembers X s node)
         | HierarchyInstantiation \<Rightarrow> Inr (Null, addMembers X s node)
         | TypedefDeclaration \<Rightarrow> Inr (Null, addMembers X s node)
         | DataDeclaration \<Rightarrow> Inr (Null, foldl (declareSymbol X) s (symbolsOf X s node))
         | CompilationUnit \<Rightarrow> Inr (Null, foldl (addMembers X) s (unitMembers X node))
         | OtherKind k \<Rightarrow>
             if isExpressionKind X (OtherKind k) then Inr (evalExpression X s node)
             else if isStatementKind X (OtherKind k) then Inr (Null, evalStatement X s node)
             else Inl Unreachable)"

text \<open>The declaration forms the switch lists by name.\<close>

definition isDeclarationForm :: "SyntaxKind \<Rightarrow> bool" where
  "isDeclarationForm k =
     (k = ParameterDeclarationStatement \<or> k = FunctionDeclaration \<or> k = TaskDeclaration
      \<or> k = InterfaceDeclaration \<or> k = ModuleDeclaration \<or> k = HierarchyInstantiation
      \<or> k = TypedefDeclaration \<or> k = DataDeclaration \<or> k = CompilationUnit)"

text \<open>The value a call returns, when it returns.\<close>

definition returned ::
  "error + ('v ConstantValue \<times> 's) \<Rightarrow> 'v ConstantValue option" where
  "returned r = (case r of Inl _ \<Rightarrow> None | Inr (v, _) \<Rightarrow> Some v)"

text \<open>
  A small front end for a concrete run: the node is its own kind, kind 0 is the one
  expression kind and kind 1 the one statement kind, an expression evaluates to 3.
\<close>

definition exampleFrontEnd :: "(SyntaxKind, nat, nat, nat, int) Collaborators" where
  "exampleFrontEnd =
     \<lparr>fromText = (\<lambda>t. if t = ''module m; endmodule'' then ModuleDeclaration
                        else if t = ''1 + 2'' then OtherKind 0 else OtherKind 1),
      kindOf = (\<lambda>n. n),
      isExpressionKind = (\<lambda>k. k = OtherKind 0),
      isStatementKind = (\<lambda>k. k = OtherKind 1),
      unitMembers = (\<lambda>n. []),
      membersOf = (\<lambda>n. [0]),
      symbolsOf = (\<lambda>s n. []),
      memberOf = (\<lambda>y. y),
      getInitializer = (\<lambda>y. None),
      evalInitializer = (\<lambda>s e. (Null, s)),
      bindAndEval = (\<lambda>s n. (Val 3, s)),
      runStatement = (\<lambda>s n. s)\<rparr>"

definition emptySession :: "(SyntaxKind, nat, nat, int) ScriptSession" where
  "emptySession = \<lparr>syntaxTrees = [], scopeMembers = [], locals = []\<rparr>"

lemma eval_declaration_form:
  "isDeclarationForm (kindOf X (fromText X inp)) \<Longrightarrow> returned (eval X s inp) = Some Null"
  by (auto simp: isDeclarationForm_def eval_def returned_def Let_def)

lemma eval_statement:
  assumes "isStatementKind X (kindOf X (fromText X inp))"
    and "\<not> isExpressionKind X (kindOf X (fromText X inp))"
  shows "returned (eval X s inp) = Some Null"
  using assms
  by (cases "kindOf X (fromText X inp)")
     (simp_all add: eval_def returned_def Let_def evalStatement_def)

lemma eval_value_only_expression:
  assumes "returned (eval X s inp) = Some (Val v)"
  shows "isExpressionKind X (kindOf X (fromText X inp))
         \<and> \<not> isDeclarationForm (kindOf X (fromText X inp))"
  using assms
  by (cases "kindOf X (fromText X inp)")
     (simp_all add: eval_def returned_def Let_def isDeclarationForm_def split: if_splits)

text \<open>
  C10. When the parsed root is one of the declaration forms of the switch, \<open>eval\<close>
  returns the null value. When the root is a statement kind (the two kind tables share no
  kind: a statement kind is not an expression kind), \<open>eval\<close> returns the null value.
  When \<open>eval\<close> returns a value that is not null, the root is an expression kind and
  none of the declaration forms.
\<close>

theorem eval_null_unless_expression:
  "(isDeclarationForm (kindOf X (fromText X inp)) \<longrightarrow> returned (eval X s inp) = Some Null)
   \<and> (isStatementKind X (kindOf X (fromText X inp))
        \<and> \<not> isExpressionKind X (kindOf X (fromText X inp))
        \<longrightarrow> returned (eval X s inp) = Some Null)
   \<and> (returned (eval X s inp) = Some (Val v)
        \<longrightarrow> isExpressionKind X (kindOf X (fromText X inp))
            \<and> \<not> isDeclarationForm (kindOf X (fromText X inp)))"
  using eval_declaration_form [of X inp s] eval_statement [of X inp s]
    eval_value_only_expression [of X s inp v]
  by blast


theorem eval_null_unless_expression_witness:
  "returned (eval exampleFrontEnd emptySession ''module m; endmodule'') = Some Null
   \<and> returned (eval exampleFrontEnd emptySession ''x = 1;'') = Some Null
   \<and> returned (eval exampleFrontEnd emptySession ''1 + 2'') = Some (Val 3)
   \<and> isExpressionKind exampleFrontEnd (kindOf exampleFrontEnd (fromText exampleFrontEnd ''1 + 2''))"
proof -
  have d: "isDeclarationForm
      (kindOf exampleFrontEnd (fromText exampleFrontEnd ''module m; endmodule''))"
    by (simp add: exampleFrontEnd_def isDeclarationForm_def)
  have st: "isStatementKind exampleFrontEnd (kindOf exampleFrontEnd (fromText exampleFrontEnd ''x = 1;''))
      \<and> \<not> isExpressionKind exampleFrontEnd (kindOf exampleFrontEnd (fromText exampleFrontEnd ''x = 1;''))"
    by (simp add: exampleFrontEnd_def)
  have ex: "returned (eval exampleFrontEnd emptySession ''1 + 2'') = Some (Val 3)"
    by (simp add: exampleFrontEnd_def eval_def returned_def evalExpression_def)
  from d eval_null_unless_expression [of exampleFrontEnd "''module m; endmodule''" emptySession]
  have 1: "returned (eval exampleFrontEnd emptySession ''module m; endmodule'') = Some Null"
    by blast
  from st eval_null_unless_expression [of exampleFrontEnd "''x = 1;''" emptySession]
  have 2: "returned (eval exampleFrontEnd emptySession ''x = 1;'') = Some Null"
    by blast
  from ex eval_null_unless_expression [of exampleFrontEnd "''1 + 2''" emptySession 3]
  have 3: "isExpressionKind exampleFrontEnd (kindOf exampleFrontEnd (fromText exampleFrontEnd ''1 + 2''))"
    by blast
  from 1 2 ex 3 show ?thesis by blast
qed


section \<open>InstanceBodySymbol::hasSameType (InstanceSymbols.h)\<close>

text \<open>
  A resolved parameter of a body: \<^verbatim>\<open>span<const ParameterSymbolBase* const> parameters\<close>.
  A parameter is a type parameter, resolved to a type, or a value parameter, resolved to a
  constant value. Types are compared by identity, so a type is its reference \<open>'t\<close>;
  values are compared by equality on \<open>'v\<close>.
\<close>

datatype ('t, 'v) ParameterSymbolBase =
  TypeParameter 't
  | ValueParameter 'v

text \<open>
  \<^verbatim>\<open>class InstanceBodySymbol\<close>: the reference to the Definition the body was built
  from (\<^verbatim>\<open>const Definition& definition\<close>; a Definition is identified by its address),
  the resolved parameters and the \<open>isUninstantiated\<close> flag.
\<close>

record ('t, 'v) InstanceBodySymbol =
  definitionRef :: nat
  bodyParameters :: "('t, 'v) ParameterSymbolBase list"
  isUninstantiated :: bool

text \<open>\<^verbatim>\<open>const Definition& getDefinition() const { return definition; }\<close>\<close>

definition getDefinition :: "('t, 'v) InstanceBodySymbol \<Rightarrow> nat" where
  "getDefinition b = definitionRef b"

text \<open>
  Modelled from the spec: the header declares
  \<^verbatim>\<open>bool hasSameType(const InstanceBodySymbol& other) const;\<close> and its body is missing.
  The spec: "hasSameType compares Definition identity plus pairwise resolved parameter
  equality", "type parameters by type identity, value parameters by value equality".
  \<open>sameParameter\<close> compares one pair, \<open>sameParameters\<close> walks the two lists together.
\<close>

fun sameParameter ::
  "('t, 'v) ParameterSymbolBase \<Rightarrow> ('t, 'v) ParameterSymbolBase \<Rightarrow> bool" where
  "sameParameter (TypeParameter s) (TypeParameter t) = (s = t)"
| "sameParameter (ValueParameter v) (ValueParameter w) = (v = w)"
| "sameParameter _ _ = False"

fun sameParameters ::
  "('t, 'v) ParameterSymbolBase list \<Rightarrow> ('t, 'v) ParameterSymbolBase list \<Rightarrow> bool" where
  "sameParameters [] [] = True"
| "sameParameters (p # ps) (q # qs) = (sameParameter p q \<and> sameParameters ps qs)"
| "sameParameters _ _ = False"

definition hasSameType ::
  "('t, 'v) InstanceBodySymbol \<Rightarrow> ('t, 'v) InstanceBodySymbol \<Rightarrow> bool" where
  "hasSameType a b =
     (getDefinition a = getDefinition b
      \<and> sameParameters (bodyParameters a) (bodyParameters b))"

lemma sameParameter_eq: "sameParameter p q = (p = q)"
  by (cases p; cases q) simp_all

lemma sameParameters_pairwise:
  "sameParameters ps qs =
     (length ps = length qs \<and> (\<forall>i < length ps. sameParameter (ps ! i) (qs ! i)))"
  by (induction ps qs rule: sameParameters.induct) (auto simp: All_less_Suc2)

lemma sameParameters_refl: "sameParameters ps ps"
  by (simp add: sameParameters_pairwise sameParameter_eq)

text \<open>
  C1. \<open>hasSameType\<close> is true exactly when both bodies refer to the same Definition and
  their resolved parameter lists have the same length and agree at every position: two
  type parameters on the same type, two value parameters on equal values, and never a type
  parameter against a value parameter. Two bodies of the same Definition with identical
  resolved parameters have the same type, and a position where the two hold different
  values makes \<open>hasSameType\<close> false.
\<close>

theorem hasSameType_iff:
  "hasSameType a b =
     (getDefinition a = getDefinition b
      \<and> length (bodyParameters a) = length (bodyParameters b)
      \<and> (\<forall>i < length (bodyParameters a).
            case (bodyParameters a ! i, bodyParameters b ! i) of
              (TypeParameter s, TypeParameter t) \<Rightarrow> s = t
            | (ValueParameter v, ValueParameter w) \<Rightarrow> v = w
            | _ \<Rightarrow> False))
   \<and> (getDefinition a = getDefinition b \<and> bodyParameters a = bodyParameters b
        \<longrightarrow> hasSameType a b)
   \<and> (\<forall>i v w. i < length (bodyParameters a) \<and> i < length (bodyParameters b)
        \<and> bodyParameters a ! i = ValueParameter v \<and> bodyParameters b ! i = ValueParameter w
        \<and> v \<noteq> w \<longrightarrow> \<not> hasSameType a b)"
proof -
  have pair: "sameParameter p q =
      (case (p, q) of
         (TypeParameter s, TypeParameter t) \<Rightarrow> s = t
       | (ValueParameter v, ValueParameter w) \<Rightarrow> v = w
       | _ \<Rightarrow> False)" for p q :: "('a, 'b) ParameterSymbolBase"
    by (cases p; cases q) simp_all
  have 1: "hasSameType a b =
     (getDefinition a = getDefinition b
      \<and> length (bodyParameters a) = length (bodyParameters b)
      \<and> (\<forall>i < length (bodyParameters a).
            case (bodyParameters a ! i, bodyParameters b ! i) of
              (TypeParameter s, TypeParameter t) \<Rightarrow> s = t
            | (ValueParameter v, ValueParameter w) \<Rightarrow> v = w
            | _ \<Rightarrow> False))"
    unfolding hasSameType_def sameParameters_pairwise pair ..
  have 2: "getDefinition a = getDefinition b \<and> bodyParameters a = bodyParameters b
        \<longrightarrow> hasSameType a b"
    by (simp add: hasSameType_def sameParameters_refl)
  have 3: "\<not> hasSameType a b"
    if "i < length (bodyParameters a)" "i < length (bodyParameters b)"
      "bodyParameters a ! i = ValueParameter v" "bodyParameters b ! i = ValueParameter w"
      "v \<noteq> w" for i v w
  proof
    assume "hasSameType a b"
    then have "sameParameter (bodyParameters a ! i) (bodyParameters b ! i)"
      using that(1) by (simp add: hasSameType_def sameParameters_pairwise)
    with that(3,4,5) show False by simp
  qed
  from 1 2 3 show ?thesis by blast
qed

theorem hasSameType_iff_witness:
  "hasSameType
     \<lparr>definitionRef = 1, bodyParameters = [TypeParameter ''logic'', ValueParameter (8::int)],
      isUninstantiated = False\<rparr>
     \<lparr>definitionRef = 1, bodyParameters = [TypeParameter ''logic'', ValueParameter 8],
      isUninstantiated = True\<rparr>
   \<and> \<not> hasSameType
     \<lparr>definitionRef = 1, bodyParameters = [TypeParameter ''logic'', ValueParameter (8::int)],
      isUninstantiated = False\<rparr>
     \<lparr>definitionRef = 1, bodyParameters = [TypeParameter ''logic'', ValueParameter 16],
      isUninstantiated = False\<rparr>"
proof -
  let ?a = "\<lparr>definitionRef = 1, bodyParameters = [TypeParameter ''logic'', ValueParameter (8::int)],
      isUninstantiated = False\<rparr>"
  let ?b = "\<lparr>definitionRef = 1, bodyParameters = [TypeParameter ''logic'', ValueParameter (8::int)],
      isUninstantiated = True\<rparr>"
  let ?c = "\<lparr>definitionRef = 1, bodyParameters = [TypeParameter ''logic'', ValueParameter (16::int)],
      isUninstantiated = False\<rparr>"
  have "getDefinition ?a = getDefinition ?b \<and> bodyParameters ?a = bodyParameters ?b"
    by (simp add: getDefinition_def)
  with hasSameType_iff [of ?a ?b] have 1: "hasSameType ?a ?b" by blast
  have "(1::nat) < length (bodyParameters ?a) \<and> 1 < length (bodyParameters ?c)
        \<and> bodyParameters ?a ! 1 = ValueParameter 8 \<and> bodyParameters ?c ! 1 = ValueParameter 16
        \<and> (8::int) \<noteq> 16"
    by simp
  with hasSameType_iff [of ?a ?c] have 2: "\<not> hasSameType ?a ?c" by blast
  from 1 2 show ?thesis by blast
qed


section \<open>InstanceArraySymbol: elements over an index range (InstanceSymbols.h)\<close>

text \<open>
  Modelled from the spec: \<open>ConstantRange\<close>, whose header is missing. The spec: an
  array "holds an index range", written \<open>[lo, hi]\<close>, and "the element count equals
  hi - lo + 1", the cardinality of the range (\<open>width\<close>).
\<close>

record ConstantRange =
  lower :: int
  upper :: int

definition width :: "ConstantRange \<Rightarrow> int" where
  "width r = upper r - lower r + 1"

text \<open>
  \<^verbatim>\<open>class InstanceSymbol : public InstanceSymbolBase\<close>: the symbol's name, the body it
  wraps and \<^verbatim>\<open>span<const int32_t> arrayPath\<close>, the coordinates of the instance in the
  arrays around it, outermost first. The coordinates are integers here; the theorem below
  bounds the last one by the range, so it is an \<open>int32_t\<close> whenever the bounds of the
  range are.
\<close>

record 'b InstanceSymbol =
  iname :: string
  body :: 'b
  arrayPath :: "int list"

text \<open>\<^verbatim>\<open>class InstanceArraySymbol\<close> with its two members, and its constructor, which
  stores the elements and the range it is given.\<close>

record 'b InstanceArraySymbol =
  aname :: string
  elements :: "'b InstanceSymbol list"
  arrayRange :: ConstantRange

definition newInstanceArraySymbol ::
  "string \<Rightarrow> 'b InstanceSymbol list \<Rightarrow> ConstantRange \<Rightarrow> 'b InstanceArraySymbol" where
  "newInstanceArraySymbol n es r = \<lparr>aname = n, elements = es, arrayRange = r\<rparr>"

text \<open>
  Modelled from the spec: \<open>InstanceSymbol::fromSyntax\<close> is declared in the header and
  its body is missing. The spec: "if the declarator specifies an unpacked array dimension,
  expands into an array symbol whose elements are individually built instance symbols with
  incrementing array-path coordinates", and an instance "records ordered array-path
  coordinates (outermost to innermost) when nested in arrays". \<open>createInstance\<close> builds
  one element at its path; \<open>bodyAt\<close> stands for the resolution of the body of the
  element at a path. \<open>expandElements\<close> is the loop over the indices, from \<open>i\<close> up to
  \<open>hi\<close>: each element's path is the path of the array with the index appended.
\<close>

definition createInstance :: "string \<Rightarrow> (int list \<Rightarrow> 'b) \<Rightarrow> int list \<Rightarrow> 'b InstanceSymbol" where
  "createInstance n bodyAt path = \<lparr>iname = n, body = bodyAt path, arrayPath = path\<rparr>"

function expandElements ::
  "string \<Rightarrow> (int list \<Rightarrow> 'b) \<Rightarrow> int list \<Rightarrow> int \<Rightarrow> int \<Rightarrow> 'b InstanceSymbol list" where
  "expandElements n bodyAt path i hi =
     (if hi < i then []
      else createInstance n bodyAt (path @ [i]) # expandElements n bodyAt path (i + 1) hi)"
  by pat_completeness auto
termination
  by (relation "measure (\<lambda>(n, bodyAt, path, i, hi). nat (hi + 1 - i))") auto

declare expandElements.simps [simp del]

definition instantiateArray ::
  "string \<Rightarrow> (int list \<Rightarrow> 'b) \<Rightarrow> int list \<Rightarrow> ConstantRange \<Rightarrow> 'b InstanceArraySymbol" where
  "instantiateArray n bodyAt path r =
     newInstanceArraySymbol n (expandElements n bodyAt path (lower r) (upper r)) r"

lemma length_expandElements:
  "i \<le> hi + 1 \<Longrightarrow> int (length (expandElements n bodyAt path i hi)) = hi - i + 1"
proof (induction n bodyAt path i hi rule: expandElements.induct)
  case (1 n bodyAt path i hi)
  show ?case
  proof (cases "hi < i")
    case True
    with "1.prems" show ?thesis by (simp add: expandElements.simps [of n bodyAt path i hi])
  next
    case False
    then have "int (length (expandElements n bodyAt path (i + 1) hi)) = hi - (i + 1) + 1"
      using "1.IH" by simp
    with False show ?thesis by (simp add: expandElements.simps [of n bodyAt path i hi])
  qed
qed

lemma nth_expandElements:
  "i + int k \<le> hi \<Longrightarrow>
     expandElements n bodyAt path i hi ! k = createInstance n bodyAt (path @ [i + int k])"
proof (induction k arbitrary: i)
  case 0
  then show ?case by (simp add: expandElements.simps [of n bodyAt path i hi])
next
  case (Suc k)
  from Suc.prems have "\<not> hi < i" and "(i + 1) + int k \<le> hi" by simp_all
  with Suc.IH [of "i + 1"] show ?case
    by (simp add: expandElements.simps [of n bodyAt path i hi] algebra_simps)
qed

text \<open>
  C3. An array built over the range \<open>[lo, hi]\<close> (with \<open>lo \<le> hi\<close>) keeps that range,
  has \<open>hi - lo + 1\<close> elements, the cardinality of the range, and for every \<open>i\<close> from
  \<open>0\<close> to \<open>hi - lo\<close> the array path of element \<open>i\<close> is the path of the array followed by
  \<open>lo + i\<close>, so its last coordinate is \<open>lo + i\<close>.
\<close>

theorem instantiateArray_elements:
  assumes "lower r \<le> upper r"
  shows "arrayRange (instantiateArray n bodyAt path r) = r
    \<and> int (length (elements (instantiateArray n bodyAt path r))) = upper r - lower r + 1
    \<and> int (length (elements (instantiateArray n bodyAt path r))) = width r
    \<and> (\<forall>i. 0 \<le> i \<and> i \<le> upper r - lower r \<longrightarrow>
          arrayPath (elements (instantiateArray n bodyAt path r) ! nat i) = path @ [lower r + i]
          \<and> last (arrayPath (elements (instantiateArray n bodyAt path r) ! nat i)) = lower r + i)"
proof -
  have es: "elements (instantiateArray n bodyAt path r)
      = expandElements n bodyAt path (lower r) (upper r)"
    by (simp add: instantiateArray_def newInstanceArraySymbol_def)
  have len: "int (length (expandElements n bodyAt path (lower r) (upper r)))
      = upper r - lower r + 1"
    using assms by (simp add: length_expandElements)
  have nth: "arrayPath (expandElements n bodyAt path (lower r) (upper r) ! nat i)
      = path @ [lower r + i]" if "0 \<le> i" "i \<le> upper r - lower r" for i
  proof -
    from that have "lower r + int (nat i) \<le> upper r" by simp
    then have "expandElements n bodyAt path (lower r) (upper r) ! nat i
        = createInstance n bodyAt (path @ [lower r + int (nat i)])"
      by (rule nth_expandElements)
    with that(1) show ?thesis by (simp add: createInstance_def)
  qed
  have rng: "arrayRange (instantiateArray n bodyAt path r) = r"
    by (simp add: instantiateArray_def newInstanceArraySymbol_def)
  from rng len nth show ?thesis unfolding es width_def by simp
qed

theorem instantiateArray_elements_witness:
  "length (elements (instantiateArray ''u'' (\<lambda>p. ()) [1] \<lparr>lower = 2, upper = 5\<rparr>)) = 4
   \<and> last (arrayPath (elements (instantiateArray ''u'' (\<lambda>p. ()) [1] \<lparr>lower = 2, upper = 5\<rparr>) ! 3)) = 5
   \<and> arrayPath (elements (instantiateArray ''u'' (\<lambda>p. ()) [1] \<lparr>lower = 2, upper = 5\<rparr>) ! 0) = [1, 2]"
proof -
  let ?r = "\<lparr>lower = 2, upper = 5\<rparr>"
  have h: "lower ?r \<le> upper ?r" by simp
  note t = instantiateArray_elements [OF h, of "''u''" "\<lambda>p. ()" "[1]"]
  from t have 1: "length (elements (instantiateArray ''u'' (\<lambda>p. ()) [1] ?r)) = 4" by simp
  from t have every: "arrayPath (elements (instantiateArray ''u'' (\<lambda>p. ()) [1] ?r) ! nat i) = [1, 2 + i]"
    if "0 \<le> i" "i \<le> 3" for i
    using that by simp
  from every [of 3] have 2: "last (arrayPath (elements (instantiateArray ''u'' (\<lambda>p. ()) [1] ?r) ! 3)) = 5"
    by simp
  from every [of 0] have 3: "arrayPath (elements (instantiateArray ''u'' (\<lambda>p. ()) [1] ?r) ! 0) = [1, 2]"
    by simp
  from 1 2 3 show ?thesis by blast
qed

end
